theory Spec2Isabelle
  imports Complex_Main "HOL-Library.List_Lexorder"
begin

section \<open>Python values and errors\<close>

text \<open>
  The module \<^verbatim>\<open>kpaths3d/hkot/spg_mapping.py\<close> is Python 2 code over numpy arrays.
  An exception is a value of the type \<open>error\<close>; a function that may raise returns
  \<open>error + 'a\<close>, with \<open>Inl\<close> for the exception. A message built with
  \<^verbatim>\<open>format\<close> keeps the formatted values as they are instead of their decimal text.
\<close>

datatype message =
    Plain string
  | Invalid_bravais_lattice string
  | Atoms_of_different_type "nat list list"

datatype error =
    TypeError message
  | ValueError message
  | AttributeError string
  | IndexError

text \<open>
  The objects a caller can pass as \<^verbatim>\<open>number\<close>. In Python \<^verbatim>\<open>bool\<close> is a subclass of
  \<^verbatim>\<open>int\<close>, so \<^verbatim>\<open>isinstance(True, (int, long))\<close> holds and \<^verbatim>\<open>True\<close> compares as 1.
\<close>

datatype pyobject =
    PyInt int
  | PyBool bool
  | PyFloat rat
  | PyStr string
  | PyNone

fun isinstance_int_long :: "pyobject \<Rightarrow> bool" where
  "isinstance_int_long (PyInt n) = True"
| "isinstance_int_long (PyBool b) = True"
| "isinstance_int_long x = False"

fun int_value :: "pyobject \<Rightarrow> int" where
  "int_value (PyInt n) = n"
| "int_value (PyBool b) = (if b then 1 else 0)"
| "int_value x = 0"

section \<open>The crystal family of a spacegroup number\<close>

definition get_crystal_family :: "pyobject \<Rightarrow> error + string" where
  "get_crystal_family number =
     (if \<not> isinstance_int_long number then Inl (TypeError (Plain ''number should be integer''))
      else let n = int_value number in
        if n < 1 then Inl (ValueError (Plain ''number should be >= 1''))
        else if n \<le> 2 then Inr ''a''
        else if n \<le> 15 then Inr ''m''
        else if n \<le> 74 then Inr ''o''
        else if n \<le> 142 then Inr ''t''
        else if n \<le> 194 then Inr ''h''
        else if n \<le> 230 then Inr ''c''
        else Inl (ValueError (Plain ''number should be <= 230'')))"

text \<open>
  The specification's error class InvalidInput covers both exceptions of this function:
  a wrong type of argument and an argument out of range.
\<close>

fun InvalidInput :: "error \<Rightarrow> bool" where
  "InvalidInput (TypeError m) = True"
| "InvalidInput (ValueError (Plain m)) = True"
| "InvalidInput (ValueError (Invalid_bravais_lattice b)) = True"
| "InvalidInput e = False"

section \<open>Three by three matrices\<close>

text \<open>
  A numpy array of shape (3,) is a triple and one of shape (3, 3) is the triple of its
  rows. An integer array has entries in \<open>int\<close>. A float array has entries in \<open>rat\<close>:
  the model computes with the exact rationals that the floats stand for, so
  \<^verbatim>\<open>1./3.\<close> is the rational one third and no operation rounds.
\<close>

type_synonym 'a vec3 = "'a \<times> 'a \<times> 'a"
type_synonym 'a mat3 = "'a vec3 \<times> 'a vec3 \<times> 'a vec3"

definition vec_entries :: "'a vec3 \<Rightarrow> 'a list" where
  "vec_entries v = (case v of (a, b, c) \<Rightarrow> [a, b, c])"

definition entries :: "'a mat3 \<Rightarrow> 'a list" where
  "entries M = (case M of (r1, r2, r3) \<Rightarrow> vec_entries r1 @ vec_entries r2 @ vec_entries r3)"

definition map_vec :: "('a \<Rightarrow> 'b) \<Rightarrow> 'a vec3 \<Rightarrow> 'b vec3" where
  "map_vec f v = (case v of (a, b, c) \<Rightarrow> (f a, f b, f c))"

definition map_mat :: "('a \<Rightarrow> 'b) \<Rightarrow> 'a mat3 \<Rightarrow> 'b mat3" where
  "map_mat f M = (case M of (r1, r2, r3) \<Rightarrow> (map_vec f r1, map_vec f r2, map_vec f r3))"

text \<open>An integer array used in float arithmetic is converted entry by entry.\<close>

definition as_float :: "int mat3 \<Rightarrow> rat mat3" where
  "as_float M = map_mat rat_of_int M"

text \<open>\<^verbatim>\<open>c * np.array(...)\<close> for a float \<open>c\<close>.\<close>

definition scale :: "rat \<Rightarrow> int mat3 \<Rightarrow> rat mat3" where
  "scale c M = map_mat (\<lambda>a. c * rat_of_int a) M"

text \<open>The attribute \<^verbatim>\<open>.T\<close>.\<close>

definition transpose3 :: "'a mat3 \<Rightarrow> 'a mat3" where
  "transpose3 M =
     (case M of ((a11, a12, a13), (a21, a22, a23), (a31, a32, a33)) \<Rightarrow>
        ((a11, a21, a31), (a12, a22, a32), (a13, a23, a33)))"

definition inner :: "rat vec3 \<Rightarrow> rat vec3 \<Rightarrow> rat" where
  "inner u v = (case (u, v) of ((a, b, c), (x, y, z)) \<Rightarrow> a * x + b * y + c * z)"

text \<open>\<^verbatim>\<open>np.dot\<close> of a matrix and a vector, and of two matrices.\<close>

definition dot_vec :: "rat mat3 \<Rightarrow> rat vec3 \<Rightarrow> rat vec3" where
  "dot_vec M v = (case M of (r1, r2, r3) \<Rightarrow> (inner r1 v, inner r2 v, inner r3 v))"

definition dot :: "rat mat3 \<Rightarrow> rat mat3 \<Rightarrow> rat mat3" where
  "dot A B =
     (case (A, transpose3 B) of ((r1, r2, r3), (c1, c2, c3)) \<Rightarrow>
        ((inner r1 c1, inner r1 c2, inner r1 c3),
         (inner r2 c1, inner r2 c2, inner r2 c3),
         (inner r3 c1, inner r3 c2, inner r3 c3)))"

definition identity3 :: "rat mat3" where
  "identity3 = ((1, 0, 0), (0, 1, 0), (0, 0, 1))"

text \<open>
  \<^verbatim>\<open>np.linalg.det\<close> returns a float. On the integer matrices of this module, whose
  entries are \<open>-1\<close>, \<open>0\<close> and \<open>1\<close>, the elimination behind it meets small integers
  and halves only, which floats hold exactly, so the float is the exact determinant.
  \<^verbatim>\<open>int(...)\<close> truncates a float towards zero.
\<close>

definition np_linalg_det :: "int mat3 \<Rightarrow> rat" where
  "np_linalg_det M =
     (case M of ((a11, a12, a13), (a21, a22, a23), (a31, a32, a33)) \<Rightarrow>
        rat_of_int (a11 * (a22 * a33 - a23 * a32)
                  - a12 * (a21 * a33 - a23 * a31)
                  + a13 * (a21 * a32 - a22 * a31)))"

definition py_int :: "rat \<Rightarrow> int" where
  "py_int x = (if 0 \<le> x then \<lfloor>x\<rfloor> else \<lceil>x\<rceil>)"

section \<open>The transformation matrices\<close>

text \<open>
  The function returns \<open>P\<close> as a float array and \<open>invP\<close> as an integer array. In its
  first branch \<open>P\<close> is an integer array too; the model holds its entries as rationals
  like those of every other \<open>P\<close>.
\<close>

definition get_P_matrix :: "string \<Rightarrow> error + (rat mat3 \<times> int mat3)" where
  "get_P_matrix bravais_lattice =
     (if bravais_lattice \<in> set [''cP'', ''tP'', ''hP'', ''oP'', ''mP''] then
        Inr (as_float ((1, 0, 0), (0, 1, 0), (0, 0, 1)),
             ((1, 0, 0), (0, 1, 0), (0, 0, 1)))
      else if bravais_lattice \<in> set [''cF'', ''oF''] then
        Inr (scale (1 / 2) ((0, 1, 1), (1, 0, 1), (1, 1, 0)),
             ((- 1, 1, 1), (1, - 1, 1), (1, 1, - 1)))
      else if bravais_lattice \<in> set [''cI'', ''tI'', ''oI''] then
        Inr (scale (1 / 2) ((- 1, 1, 1), (1, - 1, 1), (1, 1, - 1)),
             ((0, 1, 1), (1, 0, 1), (1, 1, 0)))
      else if bravais_lattice = ''hR'' then
        Inr (scale (1 / 3) ((2, - 1, - 1), (1, 1, - 2), (1, 1, 1)),
             ((1, 0, 1), (- 1, 1, 1), (0, - 1, 1)))
      else if bravais_lattice = ''oC'' then
        Inr (scale (1 / 2) ((1, 1, 0), (- 1, 1, 0), (0, 0, 2)),
             ((1, - 1, 0), (1, 1, 0), (0, 0, 1)))
      else if bravais_lattice = ''oA'' then
        Inr (scale (1 / 2) ((0, 0, 2), (1, 1, 0), (- 1, 1, 0)),
             ((0, 1, - 1), (0, 1, 1), (1, 0, 0)))
      else if bravais_lattice = ''mC'' then
        Inr (scale (1 / 2) ((1, - 1, 0), (1, 1, 0), (0, 0, 2)),
             ((1, 1, 0), (- 1, 1, 0), (0, 0, 1)))
      else Inl (ValueError (Invalid_bravais_lattice bravais_lattice)))"

text \<open>The fourteen symbols that some branch of \<open>get_P_matrix\<close> names, in the order of the branches.\<close>

definition bravais_lattices :: "string list" where
  "bravais_lattices =
     [''cP'', ''tP'', ''hP'', ''oP'', ''mP'', ''cF'', ''oF'', ''cI'', ''tI'', ''oI'',
      ''hR'', ''oC'', ''oA'', ''mC'']"

section \<open>The primitive cell\<close>

text \<open>
  A structure is the tuple \<^verbatim>\<open>(lattice, positions, types)\<close> of numpy arrays: the
  lattice of shape (3, 3) with one basis vector in each row, the positions of shape
  (N, 3) and the N types.
\<close>

type_synonym 'a crystal_structure = "rat mat3 \<times> rat vec3 list \<times> 'a list"

definition threshold :: rat where
  "threshold = 1 / 1000000"

text \<open>\<^verbatim>\<open>x % 1.\<close> on floats takes the sign of the divisor: it is \<open>x\<close> minus its floor.\<close>

definition mod1 :: "rat \<Rightarrow> rat" where
  "mod1 x = x - rat_of_int \<lfloor>x\<rfloor>"

text \<open>
  One entry of \<^verbatim>\<open>x_match\<close>: row \<open>i\<close>, column \<open>j\<close> compares the difference
  \<^verbatim>\<open>a[j] - a[i]\<close>, which is what \<^verbatim>\<open>a - a[:,None]\<close> holds at \<open>[i, j]\<close>.
\<close>

definition axis_match :: "rat \<Rightarrow> rat \<Rightarrow> bool" where
  "axis_match a_i a_j = (\<bar>mod1 (a_j - a_i + 1 / 2) - 1 / 2\<bar> < threshold)"

text \<open>
  One entry of \<^verbatim>\<open>all_match\<close>: the conjunction of the entries of \<^verbatim>\<open>x_match\<close>,
  \<^verbatim>\<open>y_match\<close> and \<^verbatim>\<open>z_match\<close>, nested as the two calls of \<^verbatim>\<open>np.logical_and\<close> are.
\<close>

definition atoms_match :: "rat vec3 \<Rightarrow> rat vec3 \<Rightarrow> bool" where
  "atoms_match p q =
     (case (p, q) of ((xi, yi, zi), (xj, yj, zj)) \<Rightarrow>
        axis_match xi xj \<and> (axis_match yi yj \<and> axis_match zi zj))"

definition all_match :: "rat vec3 list \<Rightarrow> bool list list" where
  "all_match prim_positions =
     map (\<lambda>p. map (\<lambda>q. atoms_match p q) prim_positions) prim_positions"

text \<open>Each row of the matrix selects, from \<^verbatim>\<open>np.arange(N)\<close>, the columns where it holds.\<close>

definition group_of_equivalent_atoms :: "bool list list \<Rightarrow> nat list list" where
  "group_of_equivalent_atoms m = map (\<lambda>row. filter (\<lambda>j. row ! j) [0..<length m]) m"

text \<open>
  \<^verbatim>\<open>Counter\<close> maps each distinct element to the number of its occurrences. The order
  in which a Python 2 dictionary yields its items is not fixed; the code below uses the
  items only through a test for emptiness and through \<^verbatim>\<open>sorted\<close>.
\<close>

definition Counter :: "'k list \<Rightarrow> ('k \<times> nat) list" where
  "Counter xs = map (\<lambda>k. (k, count_list xs k)) (remdups xs)"

text \<open>
  \<^verbatim>\<open>wrong_count\<close> is a list, and when it is not empty the argument of the
  \<^verbatim>\<open>ValueError\<close> calls \<^verbatim>\<open>wrong_count.keys()\<close>: the attribute lookup raises
  \<^verbatim>\<open>AttributeError\<close> before any \<^verbatim>\<open>ValueError\<close> is built. Tuples of indices are
  lists of naturals, sorted as Python sorts tuples: lexicographically, a proper prefix
  first. Indexing the types with a group raises \<^verbatim>\<open>IndexError\<close> when an index is
  past the end of the types, and so does \<^verbatim>\<open>group[0]\<close> on an empty group. With no
  group at all the chosen indices are empty and select nothing; this is numpy before
  version 1.12, the numpy of this Python 2 code, while later versions refuse an empty
  index array because its type is float. The two \<^verbatim>\<open>print\<close> statements only write a
  warning and are left out.
\<close>

definition get_primitive ::
  "'a crystal_structure \<Rightarrow> string \<Rightarrow> error + ('a crystal_structure \<times> (rat mat3 \<times> int mat3))" where
  "get_primitive struct bravais_lattice =
     (case struct of (lattice, positions, types) \<Rightarrow>
      case get_P_matrix bravais_lattice of
        Inl e \<Rightarrow> Inl e
      | Inr (P, invP) \<Rightarrow>
          let volume_ratio = py_int (np_linalg_det invP);
              prim_lattice = transpose3 (dot (transpose3 lattice) P);
              prim_positions = map (dot_vec (as_float invP)) positions;
              group_count = Counter (group_of_equivalent_atoms (all_match prim_positions));
              wrong_count = map fst (filter (\<lambda>(group, cnt). int cnt \<noteq> volume_ratio) group_count)
          in
          if wrong_count \<noteq> [] then Inl (AttributeError ''keys'')
          else
            let groups = sort (map fst group_count) in
            if \<not> list_all (\<lambda>group. list_all (\<lambda>i. i < length types) group) groups
            then Inl IndexError
            else
              let unique_types = map (\<lambda>group. set (map (nth types) group)) groups;
                  problematic_groups_idx =
                    filter (\<lambda>group_idx. card (unique_types ! group_idx) \<noteq> 1)
                      [0..<length unique_types]
              in
              if problematic_groups_idx \<noteq> [] then
                Inl (ValueError (Atoms_of_different_type
                  (map (nth groups)
                     (filter (\<lambda>group_idx. group_idx \<in> set problematic_groups_idx)
                        [0..<length groups]))))
              else if list_ex (\<lambda>group. group = []) groups then Inl IndexError
              else
                let chosen_idx = map hd groups in
                Inr ((prim_lattice, map (nth prim_positions) chosen_idx,
                      map (nth types) chosen_idx), (P, invP)))"

section \<open>Properties of the crystal family\<close>

text \<open>
  Claim C9. For every integer \<open>n\<close>, the crystal family of \<open>n\<close> is the triclinic tag
  \<open>a\<close> on [1, 2], the monoclinic tag \<open>m\<close> on [3, 15], the orthorhombic tag \<open>o\<close> on
  [16, 74], the tetragonal tag \<open>t\<close> on [75, 142], the trigonal and hexagonal tag \<open>h\<close>
  on [143, 194] and the cubic tag \<open>c\<close> on [195, 230]. Outside [1, 230] the function
  raises \<^verbatim>\<open>ValueError\<close>, and on an argument that is no integer it raises
  \<^verbatim>\<open>TypeError\<close>; both are errors of the class InvalidInput.
\<close>

theorem get_crystal_family_ranges:
  "(1 \<le> n \<and> n \<le> 2 \<longrightarrow> get_crystal_family (PyInt n) = Inr ''a'')
 \<and> (3 \<le> n \<and> n \<le> 15 \<longrightarrow> get_crystal_family (PyInt n) = Inr ''m'')
 \<and> (16 \<le> n \<and> n \<le> 74 \<longrightarrow> get_crystal_family (PyInt n) = Inr ''o'')
 \<and> (75 \<le> n \<and> n \<le> 142 \<longrightarrow> get_crystal_family (PyInt n) = Inr ''t'')
 \<and> (143 \<le> n \<and> n \<le> 194 \<longrightarrow> get_crystal_family (PyInt n) = Inr ''h'')
 \<and> (195 \<le> n \<and> n \<le> 230 \<longrightarrow> get_crystal_family (PyInt n) = Inr ''c'')
 \<and> (n < 1 \<longrightarrow> get_crystal_family (PyInt n) = Inl (ValueError (Plain ''number should be >= 1'')))
 \<and> (230 < n \<longrightarrow> get_crystal_family (PyInt n) = Inl (ValueError (Plain ''number should be <= 230'')))
 \<and> (n < 1 \<or> 230 < n \<longrightarrow> (\<exists>e. get_crystal_family (PyInt n) = Inl e \<and> InvalidInput e))
 \<and> (\<not> isinstance_int_long x \<longrightarrow>
       get_crystal_family x = Inl (TypeError (Plain ''number should be integer''))
       \<and> (\<exists>e. get_crystal_family x = Inl e \<and> InvalidInput e))"
  by (auto simp: get_crystal_family_def)

theorem get_crystal_family_ranges_witness:
  "get_crystal_family (PyInt 2) = Inr ''a''
 \<and> get_crystal_family (PyInt 3) = Inr ''m''
 \<and> get_crystal_family (PyInt 74) = Inr ''o''
 \<and> get_crystal_family (PyInt 75) = Inr ''t''
 \<and> get_crystal_family (PyInt 194) = Inr ''h''
 \<and> get_crystal_family (PyInt 230) = Inr ''c''
 \<and> get_crystal_family (PyInt 0) = Inl (ValueError (Plain ''number should be >= 1''))
 \<and> get_crystal_family (PyInt 231) = Inl (ValueError (Plain ''number should be <= 230''))
 \<and> get_crystal_family (PyFloat (5 / 2)) = Inl (TypeError (Plain ''number should be integer''))"
  using get_crystal_family_ranges [of 2 "PyFloat (5 / 2)"] get_crystal_family_ranges [of 3 PyNone]
    get_crystal_family_ranges [of 74 PyNone] get_crystal_family_ranges [of 75 PyNone]
    get_crystal_family_ranges [of 194 PyNone] get_crystal_family_ranges [of 230 PyNone]
    get_crystal_family_ranges [of 0 PyNone] get_crystal_family_ranges [of 231 PyNone]
  by simp

section \<open>Properties of the transformation matrices\<close>

lemmas mat_defs = as_float_def scale_def map_mat_def map_vec_def transpose3_def inner_def
  dot_vec_def dot_def identity3_def np_linalg_det_def py_int_def entries_def vec_entries_def

lemma get_P_matrix_invalid:
  "b \<notin> set bravais_lattices \<Longrightarrow> get_P_matrix b = Inl (ValueError (Invalid_bravais_lattice b))"
  by (simp add: get_P_matrix_def bravais_lattices_def)

lemma get_P_matrix_P:
  "b = ''cP'' \<or> b = ''tP'' \<or> b = ''hP'' \<or> b = ''oP'' \<or> b = ''mP'' \<Longrightarrow>
   get_P_matrix b = Inr (as_float ((1, 0, 0), (0, 1, 0), (0, 0, 1)), ((1, 0, 0), (0, 1, 0), (0, 0, 1)))"
  by (simp add: get_P_matrix_def)

lemma get_P_matrix_F:
  "b = ''cF'' \<or> b = ''oF'' \<Longrightarrow>
   get_P_matrix b = Inr (scale (1 / 2) ((0, 1, 1), (1, 0, 1), (1, 1, 0)),
                         ((- 1, 1, 1), (1, - 1, 1), (1, 1, - 1)))"
  by (elim disjE; simp add: get_P_matrix_def)

lemma get_P_matrix_I:
  "b = ''cI'' \<or> b = ''tI'' \<or> b = ''oI'' \<Longrightarrow>
   get_P_matrix b = Inr (scale (1 / 2) ((- 1, 1, 1), (1, - 1, 1), (1, 1, - 1)),
                         ((0, 1, 1), (1, 0, 1), (1, 1, 0)))"
  by (elim disjE; simp add: get_P_matrix_def)

lemma get_P_matrix_hR:
  "get_P_matrix ''hR'' = Inr (scale (1 / 3) ((2, - 1, - 1), (1, 1, - 2), (1, 1, 1)),
                              ((1, 0, 1), (- 1, 1, 1), (0, - 1, 1)))"
  by (simp add: get_P_matrix_def)

lemma get_P_matrix_oC:
  "get_P_matrix ''oC'' = Inr (scale (1 / 2) ((1, 1, 0), (- 1, 1, 0), (0, 0, 2)),
                              ((1, - 1, 0), (1, 1, 0), (0, 0, 1)))"
  by (simp add: get_P_matrix_def)

lemma get_P_matrix_oA:
  "get_P_matrix ''oA'' = Inr (scale (1 / 2) ((0, 0, 2), (1, 1, 0), (- 1, 1, 0)),
                              ((0, 1, - 1), (0, 1, 1), (1, 0, 0)))"
  by (simp add: get_P_matrix_def)

lemma get_P_matrix_mC:
  "get_P_matrix ''mC'' = Inr (scale (1 / 2) ((1, - 1, 0), (1, 1, 0), (0, 0, 2)),
                              ((1, 1, 0), (- 1, 1, 0), (0, 0, 1)))"
  by (simp add: get_P_matrix_def)

lemma get_P_matrix_valid:
  assumes "get_P_matrix b = Inr r"
  shows "b \<in> set bravais_lattices"
proof (rule ccontr)
  assume "b \<notin> set bravais_lattices"
  then have "get_P_matrix b = Inl (ValueError (Invalid_bravais_lattice b))"
    by (rule get_P_matrix_invalid)
  with assms show False by simp
qed

lemma list14_cases:
  assumes "x \<in> set [a1, a2, a3, a4, a5, a6, a7, a8, a9, a10, a11, a12, a13, a14]"
  obtains "x = a1 \<or> x = a2 \<or> x = a3 \<or> x = a4 \<or> x = a5"
    | "x = a6 \<or> x = a7"
    | "x = a8 \<or> x = a9 \<or> x = a10"
    | "x = a11" | "x = a12" | "x = a13" | "x = a14"
  using assms by auto

lemma bravais_lattices_cases:
  assumes "b \<in> set bravais_lattices"
  obtains "b = ''cP'' \<or> b = ''tP'' \<or> b = ''hP'' \<or> b = ''oP'' \<or> b = ''mP''"
    | "b = ''cF'' \<or> b = ''oF''"
    | "b = ''cI'' \<or> b = ''tI'' \<or> b = ''oI''"
    | "b = ''hR''" | "b = ''oC''" | "b = ''oA''" | "b = ''mC''"
  using assms unfolding bravais_lattices_def by (rule list14_cases)

lemma get_P_matrix_cases:
  assumes "get_P_matrix b = Inr (P, invP)"
  obtains
    (P) "b = ''cP'' \<or> b = ''tP'' \<or> b = ''hP'' \<or> b = ''oP'' \<or> b = ''mP''"
      "P = as_float ((1, 0, 0), (0, 1, 0), (0, 0, 1))" "invP = ((1, 0, 0), (0, 1, 0), (0, 0, 1))"
  | (F) "b = ''cF'' \<or> b = ''oF''"
      "P = scale (1 / 2) ((0, 1, 1), (1, 0, 1), (1, 1, 0))" "invP = ((- 1, 1, 1), (1, - 1, 1), (1, 1, - 1))"
  | (I) "b = ''cI'' \<or> b = ''tI'' \<or> b = ''oI''"
      "P = scale (1 / 2) ((- 1, 1, 1), (1, - 1, 1), (1, 1, - 1))" "invP = ((0, 1, 1), (1, 0, 1), (1, 1, 0))"
  | (hR) "b = ''hR''"
      "P = scale (1 / 3) ((2, - 1, - 1), (1, 1, - 2), (1, 1, 1))" "invP = ((1, 0, 1), (- 1, 1, 1), (0, - 1, 1))"
  | (oC) "b = ''oC''"
      "P = scale (1 / 2) ((1, 1, 0), (- 1, 1, 0), (0, 0, 2))" "invP = ((1, - 1, 0), (1, 1, 0), (0, 0, 1))"
  | (oA) "b = ''oA''"
      "P = scale (1 / 2) ((0, 0, 2), (1, 1, 0), (- 1, 1, 0))" "invP = ((0, 1, - 1), (0, 1, 1), (1, 0, 0))"
  | (mC) "b = ''mC''"
      "P = scale (1 / 2) ((1, - 1, 0), (1, 1, 0), (0, 0, 2))" "invP = ((1, 1, 0), (- 1, 1, 0), (0, 0, 1))"
proof -
  from assms have "b \<in> set bravais_lattices" by (rule get_P_matrix_valid)
  then show thesis
  proof (cases rule: bravais_lattices_cases)
    case 1
    from get_P_matrix_P [OF 1] assms have "P = as_float ((1, 0, 0), (0, 1, 0), (0, 0, 1))"
      "invP = ((1, 0, 0), (0, 1, 0), (0, 0, 1))" by simp_all
    with 1 show thesis by (rule P)
  next
    case 2
    from get_P_matrix_F [OF 2] assms have "P = scale (1 / 2) ((0, 1, 1), (1, 0, 1), (1, 1, 0))"
      "invP = ((- 1, 1, 1), (1, - 1, 1), (1, 1, - 1))" by simp_all
    with 2 show thesis by (rule F)
  next
    case 3
    from get_P_matrix_I [OF 3] assms have "P = scale (1 / 2) ((- 1, 1, 1), (1, - 1, 1), (1, 1, - 1))"
      "invP = ((0, 1, 1), (1, 0, 1), (1, 1, 0))" by simp_all
    with 3 show thesis by (rule I)
  next
    case 4
    from get_P_matrix_hR assms 4 have "P = scale (1 / 3) ((2, - 1, - 1), (1, 1, - 2), (1, 1, 1))"
      "invP = ((1, 0, 1), (- 1, 1, 1), (0, - 1, 1))" by simp_all
    with 4 show thesis by (rule hR)
  next
    case 5
    from get_P_matrix_oC assms 5 have "P = scale (1 / 2) ((1, 1, 0), (- 1, 1, 0), (0, 0, 2))"
      "invP = ((1, - 1, 0), (1, 1, 0), (0, 0, 1))" by simp_all
    with 5 show thesis by (rule oC)
  next
    case 6
    from get_P_matrix_oA assms 6 have "P = scale (1 / 2) ((0, 0, 2), (1, 1, 0), (- 1, 1, 0))"
      "invP = ((0, 1, - 1), (0, 1, 1), (1, 0, 0))" by simp_all
    with 6 show thesis by (rule oA)
  next
    case 7
    from get_P_matrix_mC assms 7 have "P = scale (1 / 2) ((1, - 1, 0), (1, 1, 0), (0, 0, 2))"
      "invP = ((1, 1, 0), (- 1, 1, 0), (0, 0, 1))" by simp_all
    with 7 show thesis by (rule mC)
  qed
qed




text \<open>
  Claim C3, as the code has it. For every symbol that \<open>get_P_matrix\<close> accepts, every
  entry of \<open>P\<close> is one of 0, 1, -1, 1/2, -1/2, 1/3, -1/3, 2/3 and -2/3, and every entry of
  \<open>invP\<close> is one of -1, 0 and 1.
\<close>

theorem matrix_entries:
  assumes "get_P_matrix b = Inr (P, invP)"
  shows "set (entries P) \<subseteq> {0, 1, - 1, 1 / 2, - (1 / 2), 1 / 3, - (1 / 3), 2 / 3, - (2 / 3)}
         \<and> set (entries invP) \<subseteq> {- 1, 0, 1}"
  using assms by (cases rule: get_P_matrix_cases) (simp_all add: mat_defs)

theorem matrix_entries_witness:
  "get_P_matrix ''oA'' = Inr (scale (1 / 2) ((0, 0, 2), (1, 1, 0), (- 1, 1, 0)),
                              ((0, 1, - 1), (0, 1, 1), (1, 0, 0)))
   \<and> set (entries (scale (1 / 2) ((0, 0, 2), (1, 1, 0), (- 1, 1, 0))))
       \<subseteq> {0, 1, - 1, 1 / 2, - (1 / 2), 1 / 3, - (1 / 3), 2 / 3, - (2 / 3)}
   \<and> set (entries ((0, 1, - 1), (0, 1, 1), (1, 0, 0)) :: int list) \<subseteq> {- 1, 0, 1}"
  using matrix_entries [OF get_P_matrix_oA] get_P_matrix_oA by simp

text \<open>
  The claim as the specification words it leaves out the two thirds: the rhombohedral
  \<open>P\<close> is a third of a matrix with the entries 2 and -2.
\<close>

theorem matrix_entries_hR_two_thirds:
  "get_P_matrix ''hR'' = Inr (scale (1 / 3) ((2, - 1, - 1), (1, 1, - 2), (1, 1, 1)),
                              ((1, 0, 1), (- 1, 1, 1), (0, - 1, 1)))
   \<and> 2 / 3 \<in> set (entries (scale (1 / 3) ((2, - 1, - 1), (1, 1, - 2), (1, 1, 1))))
   \<and> (2 / 3 :: rat) \<notin> {0, 1, - 1, 1 / 2, - (1 / 2), 1 / 3, - (1 / 3)}"
  by (simp add: get_P_matrix_hR mat_defs)



text \<open>
  Claim C5, as the code has it. \<open>get_P_matrix\<close> is a lookup with seven distinct
  results over the fourteen Bravais symbols; cP, tP, hP, oP and mP share the pair of
  identity matrices; every one of the fourteen symbols has a result; and every other
  string raises the \<^verbatim>\<open>ValueError\<close> that names it, an error of the class InvalidInput.
\<close>

theorem get_P_matrix_lookup:
  "card (get_P_matrix ` set bravais_lattices) = 7
   \<and> length bravais_lattices = 14 \<and> distinct bravais_lattices
   \<and> (b \<in> set [''cP'', ''tP'', ''hP'', ''oP'', ''mP''] \<longrightarrow>
        get_P_matrix b = Inr (identity3, ((1, 0, 0), (0, 1, 0), (0, 0, 1))))
   \<and> (b \<in> set bravais_lattices \<longrightarrow> (\<exists>r. get_P_matrix b = Inr r))
   \<and> (b \<notin> set bravais_lattices \<longrightarrow>
        get_P_matrix b = Inl (ValueError (Invalid_bravais_lattice b))
        \<and> InvalidInput (ValueError (Invalid_bravais_lattice b)))"
proof -
  have "card (get_P_matrix ` set bravais_lattices) = 7"
    unfolding bravais_lattices_def
    by (simp add: get_P_matrix_P get_P_matrix_F get_P_matrix_I get_P_matrix_hR get_P_matrix_oC
        get_P_matrix_oA get_P_matrix_mC mat_defs)
  moreover have "length bravais_lattices = 14" "distinct bravais_lattices"
    by (simp_all add: bravais_lattices_def)
  moreover have "get_P_matrix b = Inr (identity3, ((1, 0, 0), (0, 1, 0), (0, 0, 1)))"
    if "b \<in> set [''cP'', ''tP'', ''hP'', ''oP'', ''mP'']"
    using that get_P_matrix_P [of b] by (simp add: mat_defs)
  moreover have "\<exists>r. get_P_matrix b = Inr r" if "b \<in> set bravais_lattices"
    using that
  proof (cases rule: bravais_lattices_cases)
    case 1
    from get_P_matrix_P [OF 1] show ?thesis by (rule exI)
  next
    case 2
    from get_P_matrix_F [OF 2] show ?thesis by (rule exI)
  next
    case 3
    from get_P_matrix_I [OF 3] show ?thesis by (rule exI)
  next
    case 4
    from get_P_matrix_hR show ?thesis unfolding \<open>b = ''hR''\<close> by (rule exI)
  next
    case 5
    from get_P_matrix_oC show ?thesis unfolding \<open>b = ''oC''\<close> by (rule exI)
  next
    case 6
    from get_P_matrix_oA show ?thesis unfolding \<open>b = ''oA''\<close> by (rule exI)
  next
    case 7
    from get_P_matrix_mC show ?thesis unfolding \<open>b = ''mC''\<close> by (rule exI)
  qed
  moreover have "get_P_matrix b = Inl (ValueError (Invalid_bravais_lattice b))"
    if "b \<notin> set bravais_lattices"
    using that by (rule get_P_matrix_invalid)
  ultimately show ?thesis by simp
qed

theorem get_P_matrix_lookup_witness:
  "get_P_matrix ''tP'' = Inr (identity3, ((1, 0, 0), (0, 1, 0), (0, 0, 1)))
   \<and> get_P_matrix ''fcc'' = Inl (ValueError (Invalid_bravais_lattice ''fcc''))"
  using get_P_matrix_lookup [of "''tP''"] get_P_matrix_lookup [of "''fcc''"]
  by (simp add: bravais_lattices_def)

text \<open>
  The claim as the specification words it counts eleven groups of symbols. The
  fourteen symbols have seven distinct results.
\<close>

theorem get_P_matrix_not_eleven_groups:
  "card (get_P_matrix ` set [''cP'', ''tP'', ''hP'', ''oP'', ''mP'', ''cF'', ''oF'', ''cI'',
     ''tI'', ''oI'', ''hR'', ''oC'', ''oA'', ''mC'']) \<noteq> 11"
  by (simp add: get_P_matrix_P get_P_matrix_F get_P_matrix_I get_P_matrix_hR get_P_matrix_oC
      get_P_matrix_oA get_P_matrix_mC mat_defs)

section \<open>Properties of the primitive cell\<close>

subsection \<open>The steps of \<open>get_primitive\<close>\<close>

lemma Counter_keys: "map fst (Counter xs) = remdups xs"
  by (simp add: Counter_def comp_def)

lemma wrong_count_empty_iff:
  "map fst (filter (\<lambda>(group, cnt). int cnt \<noteq> v) (Counter xs)) = []
     \<longleftrightarrow> (\<forall>g\<in>set xs. int (count_list xs g) = v)"
  by (auto simp: Counter_def filter_empty_conv)

lemma equivalent_atoms_rows:
  "group_of_equivalent_atoms (all_match pp) =
     map (\<lambda>p. filter (\<lambda>j. atoms_match p (pp ! j)) [0..<length pp]) pp"
  by (auto simp: group_of_equivalent_atoms_def all_match_def intro!: filter_cong)

lemma floor_rat_divide_numeral:
  "\<lfloor>numeral a / numeral b :: rat\<rfloor> = numeral a div numeral b"
  "\<lfloor>1 / numeral b :: rat\<rfloor> = 1 div numeral b"
  "\<lfloor>- (numeral a / numeral b) :: rat\<rfloor> = - numeral a div numeral b"
  "\<lfloor>- (1 / numeral b) :: rat\<rfloor> = - 1 div numeral b"
  using floor_divide_of_int_eq [of "numeral a" "numeral b", where ?'a = rat]
    floor_divide_of_int_eq [of 1 "numeral b", where ?'a = rat]
    floor_divide_of_int_eq [of "- numeral a" "numeral b", where ?'a = rat]
    floor_divide_of_int_eq [of "- 1" "numeral b", where ?'a = rat]
  by simp_all

lemmas axis_defs = axis_match_def mod1_def threshold_def floor_rat_divide_numeral

lemma axis_match_refl: "axis_match a a"
  by (simp add: axis_defs)

lemma atoms_match_refl: "atoms_match p p"
  by (cases p) (simp add: atoms_match_def axis_match_refl)

lemma filter_indices:
  "map (nth xs) (filter (\<lambda>k. Q (xs ! k)) [0..<length xs]) = filter Q xs"
proof -
  have "filter Q (map (nth xs) [0..<length xs]) = map (nth xs) (filter (Q \<circ> nth xs) [0..<length xs])"
    by (rule filter_map)
  then show ?thesis by (simp add: map_nth comp_def)
qed

lemma problematic_groups:
  "map (nth gs)
     (filter (\<lambda>k. k \<in> set (filter (\<lambda>k. Q (map F gs ! k)) [0..<length (map F gs)]))
        [0..<length gs])
   = filter (\<lambda>g. Q (F g)) gs"
proof -
  have "filter (\<lambda>k. k \<in> set (filter (\<lambda>k. Q (map F gs ! k)) [0..<length (map F gs)])) [0..<length gs]
      = filter (\<lambda>k. Q (F (gs ! k))) [0..<length gs]"
    by (rule filter_cong) auto
  then show ?thesis using filter_indices [of gs "\<lambda>g. Q (F g)"] by simp
qed

lemma problematic_groups_empty_iff:
  "filter (\<lambda>k. Q (map F gs ! k)) [0..<length (map F gs)] = [] \<longleftrightarrow> (\<forall>g\<in>set gs. \<not> Q (F g))"
  by (auto simp: filter_empty_conv all_set_conv_all_nth)

lemma get_primitive_unfold:
  assumes "get_P_matrix b = Inr (P, invP)"
  shows "get_primitive (lattice, positions, types) b =
     (let prim_positions = map (dot_vec (as_float invP)) positions;
          rows = group_of_equivalent_atoms (all_match prim_positions);
          groups = sort (remdups rows)
      in
      if \<exists>g\<in>set rows. int (count_list rows g) \<noteq> py_int (np_linalg_det invP)
      then Inl (AttributeError ''keys'')
      else if \<exists>g\<in>set rows. \<exists>i\<in>set g. \<not> i < length types then Inl IndexError
      else if \<exists>g\<in>set rows. card (set (map (nth types) g)) \<noteq> 1
      then Inl (ValueError (Atoms_of_different_type
             (filter (\<lambda>g. card (set (map (nth types) g)) \<noteq> 1) groups)))
      else if [] \<in> set rows then Inl IndexError
      else Inr ((transpose3 (dot (transpose3 lattice) P),
                 map (\<lambda>g. prim_positions ! hd g) groups,
                 map (\<lambda>g. types ! hd g) groups), (P, invP)))"
proof -
  define pp where "pp = map (dot_vec (as_float invP)) positions"
  define rows where "rows = group_of_equivalent_atoms (all_match pp)"
  define v where "v = py_int (np_linalg_det invP)"
  define groups where "groups = sort (remdups rows)"
  define F where "F = (\<lambda>group. set (map (nth types) group))"
  have wc: "(map fst (filter (\<lambda>(group, cnt). int cnt \<noteq> v) (Counter rows)) \<noteq> [])
      \<longleftrightarrow> (\<exists>g\<in>set rows. int (count_list rows g) \<noteq> v)"
    using wrong_count_empty_iff [of v rows] by blast
  have ix: "list_all (\<lambda>group. list_all (\<lambda>i. i < length types) group) groups
      \<longleftrightarrow> \<not> (\<exists>g\<in>set rows. \<exists>i\<in>set g. \<not> i < length types)"
    by (auto simp: list_all_iff groups_def)
  have pe: "(filter (\<lambda>k. card (map F groups ! k) \<noteq> 1) [0..<length (map F groups)] \<noteq> [])
      \<longleftrightarrow> (\<exists>g\<in>set rows. card (F g) \<noteq> 1)"
    using problematic_groups_empty_iff [of "\<lambda>s. card s \<noteq> 1" F groups]
    by (auto simp: groups_def)
  have pg: "map (nth groups)
     (filter (\<lambda>k. k \<in> set (filter (\<lambda>k. card (map F groups ! k) \<noteq> 1) [0..<length (map F groups)]))
        [0..<length groups]) = filter (\<lambda>g. card (F g) \<noteq> 1) groups"
    by (rule problematic_groups)
  have em: "list_ex (\<lambda>group. group = []) groups \<longleftrightarrow> [] \<in> set rows"
    by (auto simp: list_ex_iff groups_def)
  have "get_primitive (lattice, positions, types) b =
     (if map fst (filter (\<lambda>(group, cnt). int cnt \<noteq> v) (Counter rows)) \<noteq> []
      then Inl (AttributeError ''keys'')
      else if \<not> list_all (\<lambda>group. list_all (\<lambda>i. i < length types) group) groups
      then Inl IndexError
      else if filter (\<lambda>k. card (map F groups ! k) \<noteq> 1) [0..<length (map F groups)] \<noteq> []
      then Inl (ValueError (Atoms_of_different_type (map (nth groups)
         (filter (\<lambda>k. k \<in> set (filter (\<lambda>k. card (map F groups ! k) \<noteq> 1) [0..<length (map F groups)]))
            [0..<length groups]))))
      else if list_ex (\<lambda>group. group = []) groups then Inl IndexError
      else Inr ((transpose3 (dot (transpose3 lattice) P),
                 map (nth pp) (map hd groups),
                 map (nth types) (map hd groups)), (P, invP)))"
    unfolding get_primitive_def Let_def prod.case assms sum.case
      pp_def [symmetric] rows_def [symmetric] v_def [symmetric] Counter_keys
      groups_def [symmetric] F_def [symmetric]
    by (rule refl)
  also have "\<dots> =
     (if \<exists>g\<in>set rows. int (count_list rows g) \<noteq> v
      then Inl (AttributeError ''keys'')
      else if \<exists>g\<in>set rows. \<exists>i\<in>set g. \<not> i < length types then Inl IndexError
      else if \<exists>g\<in>set rows. card (F g) \<noteq> 1
      then Inl (ValueError (Atoms_of_different_type (filter (\<lambda>g. card (F g) \<noteq> 1) groups)))
      else if [] \<in> set rows then Inl IndexError
      else Inr ((transpose3 (dot (transpose3 lattice) P),
                 map (\<lambda>g. pp ! hd g) groups,
                 map (\<lambda>g. types ! hd g) groups), (P, invP)))"
    unfolding wc ix pe pg em by (simp add: comp_def)
  finally show ?thesis
    unfolding Let_def pp_def rows_def v_def groups_def F_def .
qed

lemma get_primitive_invalid:
  "get_P_matrix b = Inl e \<Longrightarrow> get_primitive s b = Inl e"
  by (cases s) (simp add: get_primitive_def)

lemma rows_length: "length (group_of_equivalent_atoms (all_match pp)) = length pp"
  by (simp add: equivalent_atoms_rows)

lemma rows_nth:
  "i < length pp \<Longrightarrow>
   group_of_equivalent_atoms (all_match pp) ! i =
     filter (\<lambda>j. atoms_match (pp ! i) (pp ! j)) [0..<length pp]"
  by (simp add: equivalent_atoms_rows)

lemma rows_set:
  "g \<in> set (group_of_equivalent_atoms (all_match pp)) \<longleftrightarrow>
   (\<exists>i<length pp. g = filter (\<lambda>j. atoms_match (pp ! i) (pp ! j)) [0..<length pp])"
  by (auto simp: in_set_conv_nth rows_length rows_nth)

lemma rows_self:
  assumes "g \<in> set (group_of_equivalent_atoms (all_match pp))"
  shows "g \<noteq> []" and "\<forall>j\<in>set g. j < length pp" and "sorted_wrt (<) g"
proof -
  from assms obtain i where i: "i < length pp"
    and g: "g = filter (\<lambda>j. atoms_match (pp ! i) (pp ! j)) [0..<length pp]"
    unfolding rows_set by blast
  from i have "i \<in> set g" unfolding g by (simp add: atoms_match_refl)
  then show "g \<noteq> []" by auto
  show "\<forall>j\<in>set g. j < length pp" unfolding g by simp
  show "sorted_wrt (<) g" unfolding g by (rule sorted_wrt_filter) simp
qed

lemma hd_Min:
  assumes "sorted_wrt (<) (g :: nat list)" and "g \<noteq> []"
  shows "hd g = Min (set g)"
proof -
  from assms obtain x xs where g: "g = x # xs" by (cases g) auto
  with assms have "\<forall>y\<in>set xs. x < y" by simp
  then have "Min (set g) = x" unfolding g by (intro Min_eqI) auto
  then show ?thesis by (simp add: g)
qed

lemma groups_sorted: "sorted_wrt (<) (sort (remdups (xs :: nat list list)))"
  by (simp add: strict_sorted_iff)

lemma get_primitive_Inr_matrix:
  assumes "get_primitive (lattice, positions, types) b = Inr (s, (P, invP))"
  shows "get_P_matrix b = Inr (P, invP)"
proof -
  obtain P' invP' where PM: "get_P_matrix b = Inr (P', invP')"
    using assms get_primitive_invalid [of b _ "(lattice, positions, types)"]
    by (cases "get_P_matrix b") auto
  from assms have "P' = P \<and> invP' = invP"
    unfolding get_primitive_unfold [OF PM] Let_def by (auto split: if_splits)
  with PM show ?thesis by simp
qed




lemma det_identity: "py_int (np_linalg_det ((1, 0, 0), (0, 1, 0), (0, 0, 1))) = 1"
  by (simp add: mat_defs)






lemma get_P_matrix_cP:
  "get_P_matrix ''cP'' = Inr (as_float ((1, 0, 0), (0, 1, 0), (0, 0, 1)), ((1, 0, 0), (0, 1, 0), (0, 0, 1)))"
  by (rule get_P_matrix_P) simp

lemma get_P_matrix_cI:
  "get_P_matrix ''cI'' = Inr (scale (1 / 2) ((- 1, 1, 1), (1, - 1, 1), (1, 1, - 1)),
                         ((0, 1, 1), (1, 0, 1), (1, 1, 0)))"
  by (rule get_P_matrix_I) simp

lemma det_I: "py_int (np_linalg_det ((0, 1, 1), (1, 0, 1), (1, 1, 0))) = 2"
  by (simp add: mat_defs)


subsection \<open>The face-centred cubic cell\<close>

lemma rows_fcc:
  "group_of_equivalent_atoms (all_match [(0, 0, 0), (0, 0, 1), (0, 1, 0), (1, 0, 0)]) =
     [[0, 1, 2, 3], [0, 1, 2, 3], [0, 1, 2, 3], [0, 1, 2, 3]]"
  by (simp add: equivalent_atoms_rows atoms_match_def axis_defs)

lemma prim_fcc:
  "map (dot_vec (as_float ((- 1, 1, 1), (1, - 1, 1), (1, 1, - 1))))
     [(0, 0, 0), (1 / 2, 1 / 2, 0), (1 / 2, 0, 1 / 2), (0, 1 / 2, 1 / 2)] =
     [(0, 0, 0), (0, 0, 1), (0, 1, 0), (1, 0, 0)]"
  by (simp add: mat_defs)

lemma det_F: "py_int (np_linalg_det ((- 1, 1, 1), (1, - 1, 1), (1, 1, - 1))) = 4"
  by (simp add: mat_defs)

lemma get_P_matrix_cF:
  "get_P_matrix ''cF'' = Inr (scale (1 / 2) ((0, 1, 1), (1, 0, 1), (1, 1, 0)),
                         ((- 1, 1, 1), (1, - 1, 1), (1, 1, - 1)))"
  by (rule get_P_matrix_F) simp


text \<open>
  Claim C1. For the conventional face-centred cubic cell, the symbol cF with four atoms
  of one type at (0, 0, 0), (1/2, 1/2, 0), (1/2, 0, 1/2) and (0, 1/2, 1/2), on any
  lattice, \<open>get_primitive\<close> succeeds; the volume ratio is 4; the primitive structure
  has exactly one atom, at (0, 0, 0), which matches (0, 0, 0) within the threshold; and
  the pair of matrices is the one of the cF branch.
\<close>

theorem get_primitive_fcc:
  "get_primitive (lattice, [(0, 0, 0), (1 / 2, 1 / 2, 0), (1 / 2, 0, 1 / 2), (0, 1 / 2, 1 / 2)],
       [t, t, t, t]) ''cF'' =
     Inr ((transpose3 (dot (transpose3 lattice) ((0, 1 / 2, 1 / 2), (1 / 2, 0, 1 / 2), (1 / 2, 1 / 2, 0))),
           [(0, 0, 0)], [t]),
          (((0, 1 / 2, 1 / 2), (1 / 2, 0, 1 / 2), (1 / 2, 1 / 2, 0)),
           ((- 1, 1, 1), (1, - 1, 1), (1, 1, - 1))))
   \<and> py_int (np_linalg_det ((- 1, 1, 1), (1, - 1, 1), (1, 1, - 1))) = 4
   \<and> atoms_match (0, 0, 0) (0, 0, 0)"
proof -
  have P: "scale (1 / 2) ((0, 1, 1), (1, 0, 1), (1, 1, 0)) =
      ((0, 1 / 2, 1 / 2), (1 / 2, 0, 1 / 2), (1 / 2, 1 / 2, 0))"
    by (simp add: mat_defs)
  have "get_primitive (lattice, [(0, 0, 0), (1 / 2, 1 / 2, 0), (1 / 2, 0, 1 / 2), (0, 1 / 2, 1 / 2)],
       [t, t, t, t]) ''cF'' =
     Inr ((transpose3 (dot (transpose3 lattice) ((0, 1 / 2, 1 / 2), (1 / 2, 0, 1 / 2), (1 / 2, 1 / 2, 0))),
           [(0, 0, 0)], [t]),
          (((0, 1 / 2, 1 / 2), (1 / 2, 0, 1 / 2), (1 / 2, 1 / 2, 0)),
           ((- 1, 1, 1), (1, - 1, 1), (1, 1, - 1))))"
    unfolding get_primitive_unfold [OF get_P_matrix_cF] Let_def prim_fcc rows_fcc det_F P
    by simp
  then show ?thesis by (simp add: det_F atoms_match_refl)
qed

theorem get_primitive_fcc_witness:
  "get_primitive (identity3, [(0, 0, 0), (1 / 2, 1 / 2, 0), (1 / 2, 0, 1 / 2), (0, 1 / 2, 1 / 2)],
       [29 :: nat, 29, 29, 29]) ''cF'' =
     Inr ((((0, 1 / 2, 1 / 2), (1 / 2, 0, 1 / 2), (1 / 2, 1 / 2, 0)), [(0, 0, 0)], [29]),
          (((0, 1 / 2, 1 / 2), (1 / 2, 0, 1 / 2), (1 / 2, 1 / 2, 0)),
           ((- 1, 1, 1), (1, - 1, 1), (1, 1, - 1))))"
  using get_primitive_fcc [of identity3 "29 :: nat"] by (simp add: mat_defs)

subsection \<open>Groups whose count differs from the volume ratio\<close>

lemma rows_single:
  "group_of_equivalent_atoms (all_match [(0, 0, 0)]) = [[0]]"
  by (simp add: equivalent_atoms_rows atoms_match_def axis_defs)


text \<open>
  Claim C6 says that a group whose size differs from the volume ratio makes
  \<open>get_primitive\<close> fail with an error that names the group. One atom in a cF cell
  is a group that occurs once where the volume ratio is 4: the code does fail, but with
  the \<^verbatim>\<open>AttributeError\<close> of \<^verbatim>\<open>wrong_count.keys()\<close>, which names no group.
\<close>

theorem get_primitive_single_atom_cF:
  "get_primitive (identity3, [(0, 0, 0)], [0 :: nat]) ''cF'' = Inl (AttributeError ''keys'')"
proof -
  have pp: "map (dot_vec (as_float ((- 1, 1, 1), (1, - 1, 1), (1, 1, - 1)))) [(0, 0, 0)] = [(0, 0, 0)]"
    by (simp add: mat_defs)
  show ?thesis
    unfolding get_primitive_unfold [OF get_P_matrix_cF] Let_def pp rows_single det_F by simp
qed


text \<open>
  The test counts how often a row of indices occurs, not how long it is. Three atoms in
  a cP cell, each within the threshold of the next but the first and the last apart, give
  the rows (0, 1), (0, 1, 2) and (1, 2); each occurs once, which is the volume ratio, and
  the cell is accepted with the first atom twice in the result.
\<close>

lemma rows_chain:
  "group_of_equivalent_atoms
     (all_match [(0, 0, 0), (6 / 10000000, 0, 0), (12 / 10000000, 0, 0)]) =
     [[0, 1], [0, 1, 2], [1, 2]]"
  by (simp add: equivalent_atoms_rows atoms_match_def axis_defs)

lemma get_primitive_chain:
  "get_primitive (identity3, [(0, 0, 0), (6 / 10000000, 0, 0), (12 / 10000000, 0, 0)],
      [0 :: nat, 0, 0]) ''cP'' =
   Inr ((identity3, [(0, 0, 0), (0, 0, 0), (6 / 10000000, 0, 0)], [0, 0, 0]),
        (identity3, ((1, 0, 0), (0, 1, 0), (0, 0, 1))))"
proof -
  have I: "as_float ((1, 0, 0), (0, 1, 0), (0, 0, 1)) = identity3" by (simp add: mat_defs)
  have id: "transpose3 (dot (transpose3 identity3) identity3) = identity3" by (simp add: mat_defs)
  have pp: "map (dot_vec identity3) [(0, 0, 0), (6 / 10000000, 0, 0), (12 / 10000000, 0, 0)]
      = [(0, 0, 0), (6 / 10000000, 0, 0), (12 / 10000000, 0, 0)]"
    by (simp add: mat_defs)
  show ?thesis
    unfolding get_primitive_unfold [OF get_P_matrix_cP] Let_def I pp rows_chain det_identity id
    by simp
qed


subsection \<open>Atoms of different types on one position\<close>

lemma rows_pair:
  "group_of_equivalent_atoms (all_match [(0, 0, 0), (0, 0, 0)]) = [[0, 1], [0, 1]]"
  "group_of_equivalent_atoms (all_match [(0, 0, 0), (1, 1, 1)]) = [[0, 1], [0, 1]]"
  by (simp_all add: equivalent_atoms_rows atoms_match_def axis_defs)

lemma prim_bcc_pair:
  "map (dot_vec (as_float ((0, 1, 1), (1, 0, 1), (1, 1, 0)))) [(0, 0, 0), (1 / 2, 1 / 2, 1 / 2)]
     = [(0, 0, 0), (1, 1, 1)]"
  by (simp add: mat_defs)


text \<open>
  Claim C7, as the code has it. Let the symbol be one that \<open>get_P_matrix\<close> accepts,
  let there be as many types as positions, and let every group of equivalent atoms
  occur as often as the volume ratio says, so that the test of the counts passes. If
  two atoms match on all three axes in primitive coordinates and their types differ,
  then \<open>get_primitive\<close> raises the \<^verbatim>\<open>ValueError\<close> for atoms of different type. Its
  message lists the sorted groups that hold more than one type, and one of them holds
  both atoms.
\<close>

theorem get_primitive_type_mismatch:
  assumes PM: "get_P_matrix b = Inr (P, invP)"
    and len: "length types = length positions"
    and cnt: "\<forall>g\<in>set (group_of_equivalent_atoms (all_match (map (dot_vec (as_float invP)) positions))).
          int (count_list
                (group_of_equivalent_atoms (all_match (map (dot_vec (as_float invP)) positions))) g)
            = py_int (np_linalg_det invP)"
    and i: "i < length positions" and j: "j < length positions"
    and coincide: "atoms_match (dot_vec (as_float invP) (positions ! i))
                               (dot_vec (as_float invP) (positions ! j))"
    and differ: "types ! i \<noteq> types ! j"
  shows "\<exists>gs. get_primitive (lattice, positions, types) b
               = Inl (ValueError (Atoms_of_different_type gs))
            \<and> gs = filter (\<lambda>g. card (set (map (nth types) g)) \<noteq> 1)
                     (sort (remdups (group_of_equivalent_atoms
                        (all_match (map (dot_vec (as_float invP)) positions)))))
            \<and> (\<exists>g\<in>set gs. i \<in> set g \<and> j \<in> set g)"
proof -
  define pp where "pp = map (dot_vec (as_float invP)) positions"
  define rows where "rows = group_of_equivalent_atoms (all_match pp)"
  define groups where "groups = sort (remdups rows)"
  define g where "g = rows ! i"
  note unf = get_primitive_unfold [OF PM, of lattice positions types, unfolded Let_def,
      folded pp_def, folded rows_def, folded groups_def]
  have n: "length pp = length positions" by (simp add: pp_def)
  have g_rows: "g \<in> set rows" using i by (simp add: g_def rows_def rows_length n)
  have g_eq: "g = filter (\<lambda>k. atoms_match (pp ! i) (pp ! k)) [0..<length pp]"
    using i by (simp add: g_def rows_def rows_nth n)
  have ig: "i \<in> set g" using i by (simp add: g_eq n atoms_match_refl)
  have jg: "j \<in> set g" using i j coincide by (simp add: g_eq n pp_def)
  have "card (set (map (nth types) g)) \<noteq> 1"
  proof
    assume "card (set (map (nth types) g)) = 1"
    then obtain t where "set (map (nth types) g) = {t}" by (auto simp: card_1_singleton_iff)
    moreover have "types ! i \<in> set (map (nth types) g)" "types ! j \<in> set (map (nth types) g)"
      using ig jg by simp_all
    ultimately show False using differ by simp
  qed
  note bad = this
  have c1: "\<not> (\<exists>g\<in>set rows. int (count_list rows g) \<noteq> py_int (np_linalg_det invP))"
    using cnt by (simp add: rows_def pp_def)
  have c2: "\<not> (\<exists>g\<in>set rows. \<exists>i\<in>set g. \<not> i < length types)"
    using rows_self(2) [of _ pp] len by (auto simp: rows_def n)
  have c3: "\<exists>g\<in>set rows. card (set (map (nth types) g)) \<noteq> 1"
    using g_rows bad by blast
  have res: "get_primitive (lattice, positions, types) b =
      Inl (ValueError (Atoms_of_different_type
             (filter (\<lambda>g. card (set (map (nth types) g)) \<noteq> 1) groups)))"
    unfolding unf using c1 c2 c3 by simp
  have "g \<in> set (filter (\<lambda>g. card (set (map (nth types) g)) \<noteq> 1) groups)"
    using g_rows bad by (simp add: groups_def)
  with ig jg have "\<exists>g\<in>set (filter (\<lambda>g. card (set (map (nth types) g)) \<noteq> 1) groups).
      i \<in> set g \<and> j \<in> set g" by blast
  with res show ?thesis unfolding groups_def rows_def pp_def by blast
qed

theorem get_primitive_type_mismatch_witness:
  "get_primitive (identity3, [(0, 0, 0), (1 / 2, 1 / 2, 1 / 2)], [0 :: nat, 1]) ''cI''
     = Inl (ValueError (Atoms_of_different_type [[0, 1]]))"
proof -
  have m: "atoms_match (dot_vec (as_float ((0, 1, 1), (1, 0, 1), (1, 1, 0))) (0, 0, 0))
      (dot_vec (as_float ((0, 1, 1), (1, 0, 1), (1, 1, 0))) (1 / 2, 1 / 2, 1 / 2))"
    by (simp add: mat_defs atoms_match_def axis_defs)
  from get_primitive_type_mismatch [OF get_P_matrix_cI, of "[0 :: nat, 1]" "[(0, 0, 0), (1 / 2, 1 / 2, 1 / 2)]" 0 1 identity3,
      unfolded prim_bcc_pair rows_pair det_I]
  show ?thesis using m by simp
qed


text \<open>
  The claim as the specification words it has no condition on the counts. Two atoms of
  different types on one position of a cP cell form a group that occurs twice where the
  volume ratio is 1, and the test of the counts, which comes first, ends the call.
\<close>

theorem get_primitive_coincident_cP:
  "get_primitive (identity3, [(0, 0, 0), (0, 0, 0)], [0 :: nat, 1]) ''cP''
     = Inl (AttributeError ''keys'')
   \<and> atoms_match (0, 0, 0) (0, 0, 0) \<and> [0 :: nat, 1] ! 0 \<noteq> [0, 1] ! 1"
proof -
  have pp: "map (dot_vec (as_float ((1, 0, 0), (0, 1, 0), (0, 0, 1)))) [(0, 0, 0), (0, 0, 0)]
      = [(0, 0, 0), (0, 0, 0)]"
    by (simp add: mat_defs)
  have "get_primitive (identity3, [(0, 0, 0), (0, 0, 0)], [0 :: nat, 1]) ''cP''
     = Inl (AttributeError ''keys'')"
    unfolding get_primitive_unfold [OF get_P_matrix_cP] Let_def pp rows_pair det_identity by simp
  then show ?thesis by (simp add: atoms_match_refl)
qed


subsection \<open>The representatives\<close>

lemma prim_bcc_four:
  "map (dot_vec (as_float ((0, 1, 1), (1, 0, 1), (1, 1, 0))))
     [(0, 0, 0), (1 / 4, 1 / 4, 1 / 4), (1 / 2, 1 / 2, 1 / 2), (3 / 4, 3 / 4, 3 / 4)]
     = [(0, 0, 0), (1 / 2, 1 / 2, 1 / 2), (1, 1, 1), (3 / 2, 3 / 2, 3 / 2)]"
  by (simp add: mat_defs)

lemma rows_bcc_four:
  "group_of_equivalent_atoms
     (all_match [(0, 0, 0), (1 / 2, 1 / 2, 1 / 2), (1, 1, 1), (3 / 2, 3 / 2, 3 / 2)])
     = [[0, 2], [1, 3], [0, 2], [1, 3]]"
  by (simp add: equivalent_atoms_rows atoms_match_def axis_defs)

lemma get_primitive_bcc_four:
  "get_primitive (identity3,
      [(0, 0, 0), (1 / 4, 1 / 4, 1 / 4), (1 / 2, 1 / 2, 1 / 2), (3 / 4, 3 / 4, 3 / 4)],
      [5 :: nat, 7, 5, 7]) ''cI'' =
   Inr ((((- (1 / 2), 1 / 2, 1 / 2), (1 / 2, - (1 / 2), 1 / 2), (1 / 2, 1 / 2, - (1 / 2))),
         [(0, 0, 0), (1 / 2, 1 / 2, 1 / 2)], [5, 7]),
        (scale (1 / 2) ((- 1, 1, 1), (1, - 1, 1), (1, 1, - 1)), ((0, 1, 1), (1, 0, 1), (1, 1, 0))))"
proof -
  have L: "transpose3 (dot (transpose3 identity3) (scale (1 / 2) ((- 1, 1, 1), (1, - 1, 1), (1, 1, - 1))))
     = ((- (1 / 2), 1 / 2, 1 / 2), (1 / 2, - (1 / 2), 1 / 2), (1 / 2, 1 / 2, - (1 / 2)))"
    by (simp add: mat_defs)
  show ?thesis
    unfolding get_primitive_unfold [OF get_P_matrix_cI] Let_def prim_bcc_four rows_bcc_four det_I L
    by simp
qed


text \<open>
  Claim C8. When \<open>get_primitive\<close> succeeds, the groups are the distinct rows of
  matching atoms, one row for each atom, in strictly ascending lexicographic order. No
  group is empty, and the first index of a group, which the code picks, is its smallest
  index and is an index of the input. The returned positions are the positions of these
  representatives multiplied by \<open>invP\<close>, with nothing taken modulo one, and the
  returned types are their types, both in the order of the groups.
\<close>

theorem get_primitive_representatives:
  assumes "get_primitive (lattice, positions, types) b =
             Inr ((prim_lattice, prim_positions, prim_types), (P, invP))"
  shows "let to_prim = dot_vec (as_float invP);
             groups = sort (remdups (group_of_equivalent_atoms (all_match (map to_prim positions))))
         in get_P_matrix b = Inr (P, invP)
          \<and> (\<forall>g. g \<in> set groups \<longleftrightarrow>
                (\<exists>i<length positions.
                   g = filter (\<lambda>j. atoms_match (to_prim (positions ! i)) (to_prim (positions ! j)))
                         [0..<length positions]))
          \<and> sorted_wrt (<) groups
          \<and> (\<forall>g\<in>set groups. g \<noteq> [] \<and> hd g = Min (set g) \<and> hd g < length positions
                \<and> hd g < length types)
          \<and> prim_positions = map (\<lambda>g. to_prim (positions ! hd g)) groups
          \<and> prim_types = map (\<lambda>g. types ! hd g) groups"
proof -
  from assms have PM: "get_P_matrix b = Inr (P, invP)" by (rule get_primitive_Inr_matrix)
  define pp where "pp = map (dot_vec (as_float invP)) positions"
  define rows where "rows = group_of_equivalent_atoms (all_match pp)"
  define groups where "groups = sort (remdups rows)"
  note unf = get_primitive_unfold [OF PM, of lattice positions types, unfolded Let_def,
      folded pp_def, folded rows_def, folded groups_def]
  from assms have ok: "\<not> (\<exists>g\<in>set rows. \<exists>i\<in>set g. \<not> i < length types)"
    and pos: "prim_positions = map (\<lambda>g. pp ! hd g) groups"
    and tys: "prim_types = map (\<lambda>g. types ! hd g) groups"
    unfolding unf by (auto split: if_splits)
  have set_groups: "set groups = set rows" by (simp add: groups_def)
  have mem: "\<forall>g. g \<in> set groups \<longleftrightarrow>
      (\<exists>i<length positions.
         g = filter (\<lambda>j. atoms_match (dot_vec (as_float invP) (positions ! i))
                             (dot_vec (as_float invP) (positions ! j))) [0..<length positions])"
  proof -
    have "filter (\<lambda>j. atoms_match (pp ! i) (pp ! j)) [0..<length positions] =
          filter (\<lambda>j. atoms_match (dot_vec (as_float invP) (positions ! i))
                             (dot_vec (as_float invP) (positions ! j))) [0..<length positions]"
      if "i < length positions" for i
      using that by (intro filter_cong) (auto simp: pp_def)
    then show ?thesis
      unfolding set_groups rows_def rows_set by (auto simp: pp_def)
  qed
  have each: "\<forall>g\<in>set groups. g \<noteq> [] \<and> hd g = Min (set g) \<and> hd g < length positions
      \<and> hd g < length types"
  proof
    fix g assume "g \<in> set groups"
    then have g: "g \<in> set (group_of_equivalent_atoms (all_match pp))"
      by (simp add: set_groups rows_def)
    note r = rows_self [OF g]
    from r(1) have "hd g \<in> set g" by simp
    with r(2) ok g have "hd g < length positions" "hd g < length types"
      by (auto simp: pp_def rows_def)
    with r hd_Min [of g]
    show "g \<noteq> [] \<and> hd g = Min (set g) \<and> hd g < length positions \<and> hd g < length types"
      by simp
  qed
  have "pp ! hd g = dot_vec (as_float invP) (positions ! hd g)" if "g \<in> set groups" for g
  proof -
    from each that have "hd g < length positions" by blast
    then show ?thesis by (simp add: pp_def)
  qed
  then have pos': "prim_positions = map (\<lambda>g. dot_vec (as_float invP) (positions ! hd g)) groups"
    unfolding pos by (intro map_cong) simp_all
  have srt: "sorted_wrt (<) groups" unfolding groups_def by (rule groups_sorted)
  have main: "get_P_matrix b = Inr (P, invP)
          \<and> (\<forall>g. g \<in> set groups \<longleftrightarrow>
                (\<exists>i<length positions.
                   g = filter (\<lambda>j. atoms_match (dot_vec (as_float invP) (positions ! i))
                                      (dot_vec (as_float invP) (positions ! j)))
                         [0..<length positions]))
          \<and> sorted_wrt (<) groups
          \<and> (\<forall>g\<in>set groups. g \<noteq> [] \<and> hd g = Min (set g) \<and> hd g < length positions
                \<and> hd g < length types)
          \<and> prim_positions = map (\<lambda>g. dot_vec (as_float invP) (positions ! hd g)) groups
          \<and> prim_types = map (\<lambda>g. types ! hd g) groups"
    using PM mem srt each pos' tys by (intro conjI)
  show ?thesis unfolding Let_def using main [unfolded groups_def rows_def pp_def] .
qed

theorem get_primitive_representatives_witness:
  "get_primitive (identity3,
      [(0, 0, 0), (1 / 4, 1 / 4, 1 / 4), (1 / 2, 1 / 2, 1 / 2), (3 / 4, 3 / 4, 3 / 4)],
      [5 :: nat, 7, 5, 7]) ''cI'' =
   Inr ((((- (1 / 2), 1 / 2, 1 / 2), (1 / 2, - (1 / 2), 1 / 2), (1 / 2, 1 / 2, - (1 / 2))),
         [(0, 0, 0), (1 / 2, 1 / 2, 1 / 2)], [5, 7]),
        (scale (1 / 2) ((- 1, 1, 1), (1, - 1, 1), (1, 1, - 1)), ((0, 1, 1), (1, 0, 1), (1, 1, 0))))
   \<and> sorted_wrt (<) [[0, 2], [1, 3 :: nat]]
   \<and> hd [0, 2 :: nat] = Min (set [0, 2]) \<and> hd [1, 3 :: nat] = Min (set [1, 3])
   \<and> [5 :: nat, 7] = map (\<lambda>g. [5, 7, 5, 7] ! hd g) [[0, 2], [1, 3]]"
  using get_primitive_representatives [OF get_primitive_bcc_four, unfolded Let_def prim_bcc_four rows_bcc_four]
    get_primitive_bcc_four
  by simp


subsection \<open>Primitive lattices\<close>




end
